theory Spec2Isabelle
  imports Main "HOL-Library.Sublist"
begin

section \<open>The API client (frontend/src/services/api.ts)\<close>

text \<open>
  The client is an axios instance created with a default timeout, and an object
  \<open>stockApi\<close> of operations. Each operation builds one HTTP request: a method, a
  path, a query (\<open>params\<close>), possibly a body, and possibly a per-request timeout
  that overrides the instance's default. The model records the request an operation
  issues; the answer of the server is not part of it.
\<close>

datatype PeriodType = Annual | Quarter

fun PeriodType_str :: "PeriodType \<Rightarrow> string" where
  "PeriodType_str Annual = ''annual''"
| "PeriodType_str Quarter = ''quarter''"

text \<open>A value of the \<open>params\<close> record: \<open>string | number | boolean\<close>.\<close>

datatype param = PStr string | PNum int | PBool bool

record FetchDataRequest =
  period_type :: PeriodType
  years :: int

datatype http_method = GET | POST | DELETE

text \<open>The per-request configuration object handed to \<open>api.get\<close> and \<open>api.post\<close>.\<close>

record config =
  params :: "(string \<times> param) list"
  timeout :: "nat option"

text \<open>The request as it leaves the instance, defaults merged in.\<close>

record request =
  req_method :: http_method
  req_url :: string
  req_params :: "(string \<times> param) list"
  req_data :: "FetchDataRequest option"
  req_timeout :: nat

definition DEFAULT_TIMEOUT :: nat where
  "DEFAULT_TIMEOUT = 30000"

definition FETCH_TIMEOUT :: nat where
  "FETCH_TIMEOUT = 60000"

text \<open>
  \<open>axios.create({ ..., timeout: DEFAULT_TIMEOUT })\<close>: a request of the instance
  carries the timeout of its own configuration when it has one, the instance's otherwise.
\<close>

definition api_request ::
  "http_method \<Rightarrow> string \<Rightarrow> FetchDataRequest option \<Rightarrow> config \<Rightarrow> request" where
  "api_request m u d c =
     \<lparr> req_method = m, req_url = u, req_params = params c, req_data = d,
       req_timeout = (case timeout c of None \<Rightarrow> DEFAULT_TIMEOUT | Some t \<Rightarrow> t) \<rparr>"

definition no_config :: config where
  "no_config = \<lparr> params = [], timeout = None \<rparr>"

definition api_get :: "string \<Rightarrow> config \<Rightarrow> request" where
  "api_get u c = api_request GET u None c"

definition api_post :: "string \<Rightarrow> FetchDataRequest \<Rightarrow> config \<Rightarrow> request" where
  "api_post u d c = api_request POST u (Some d) c"

definition api_delete :: "string \<Rightarrow> request" where
  "api_delete u = api_request DELETE u None no_config"

text \<open>
  \<open>params.k = v\<close> on a plain object: an existing key keeps its place and takes the new
  value, a new key goes last.
\<close>

fun set_param :: "string \<Rightarrow> param \<Rightarrow> (string \<times> param) list \<Rightarrow> (string \<times> param) list" where
  "set_param k v [] = [(k, v)]"
| "set_param k v ((k', v') # ps) =
     (if k' = k then (k, v) # ps else (k', v') # set_param k v ps)"

text \<open>
  \<open>if (year)\<close>: the truthiness of an optional number. \<open>undefined\<close> and \<open>0\<close> are falsy.
  Years are whole numbers, so the number is an \<open>int\<close>.
\<close>

fun truthy_num :: "int option \<Rightarrow> bool" where
  "truthy_num None = False"
| "truthy_num (Some n) = (n \<noteq> 0)"

text \<open>\<open>if (periodType)\<close>: both period types are non-empty strings, hence truthy.\<close>

fun truthy_str :: "string option \<Rightarrow> bool" where
  "truthy_str None = False"
| "truthy_str (Some s) = (s \<noteq> [])"

definition with_year :: "int option \<Rightarrow> (string \<times> param) list \<Rightarrow> (string \<times> param) list" where
  "with_year year ps =
     (if truthy_num year then set_param ''year'' (PNum (the year)) ps else ps)"

definition with_period_type ::
  "PeriodType option \<Rightarrow> (string \<times> param) list \<Rightarrow> (string \<times> param) list" where
  "with_period_type periodType ps =
     (if truthy_str (map_option PeriodType_str periodType)
      then set_param ''period_type'' (PStr (PeriodType_str (the periodType))) ps else ps)"

definition listStocks :: request where
  "listStocks = api_get ''/stocks'' no_config"

definition searchStocks :: "string \<Rightarrow> request" where
  "searchStocks query = api_get ''/stocks/search'' \<lparr> params = [(''q'', PStr query)], timeout = None \<rparr>"

definition getStock :: "string \<Rightarrow> request" where
  "getStock symbol = api_get (''/stocks/'' @ symbol) no_config"

text \<open>
  \<open>request || { period_type: 'annual', years: 6 }\<close>: an object is always truthy, so
  the default body is taken exactly when no request is given. \<open>lang\<close> defaults to
  \<open>'vi'\<close> when it is not given.
\<close>

definition fetchStockData :: "string \<Rightarrow> FetchDataRequest option \<Rightarrow> string option \<Rightarrow> request" where
  "fetchStockData symbol request lang =
     api_post (''/stocks/'' @ symbol @ ''/fetch'')
       (case request of Some r \<Rightarrow> r | None \<Rightarrow> \<lparr> period_type = Annual, years = 6 \<rparr>)
       \<lparr> params = [(''lang'', PStr (case lang of Some l \<Rightarrow> l | None \<Rightarrow> ''vi''))],
         timeout = Some FETCH_TIMEOUT \<rparr>"

definition getBalanceSheets :: "string \<Rightarrow> int option \<Rightarrow> PeriodType option \<Rightarrow> request" where
  "getBalanceSheets symbol year periodType =
     api_get (''/stocks/'' @ symbol @ ''/balance-sheet'')
       \<lparr> params = with_period_type periodType (with_year year []), timeout = None \<rparr>"

definition getIncomeStatements :: "string \<Rightarrow> int option \<Rightarrow> PeriodType option \<Rightarrow> request" where
  "getIncomeStatements symbol year periodType =
     api_get (''/stocks/'' @ symbol @ ''/income-statement'')
       \<lparr> params = with_period_type periodType (with_year year []), timeout = None \<rparr>"

definition getCashFlowStatements :: "string \<Rightarrow> int option \<Rightarrow> PeriodType option \<Rightarrow> request" where
  "getCashFlowStatements symbol year periodType =
     api_get (''/stocks/'' @ symbol @ ''/cash-flow'')
       \<lparr> params = with_period_type periodType (with_year year []), timeout = None \<rparr>"

text \<open>\<open>periodType\<close> defaults to \<open>'annual'\<close> and \<open>lang\<close> to \<open>'vi'\<close>.\<close>

definition getAllReports ::
  "string \<Rightarrow> int option \<Rightarrow> PeriodType option \<Rightarrow> string option \<Rightarrow> request" where
  "getAllReports symbol year periodType lang =
     api_get (''/stocks/'' @ symbol @ ''/reports'')
       \<lparr> params = with_year year
           [(''period_type'', PStr (PeriodType_str (case periodType of Some p \<Rightarrow> p | None \<Rightarrow> Annual))),
            (''lang'', PStr (case lang of Some l \<Rightarrow> l | None \<Rightarrow> ''vi'')),
            (''auto_fetch'', PBool True)],
         timeout = Some FETCH_TIMEOUT \<rparr>"

definition getFetchStatus :: "string \<Rightarrow> request" where
  "getFetchStatus symbol = api_get (''/stocks/'' @ symbol @ ''/status'') no_config"

definition deleteStock :: "string \<Rightarrow> request" where
  "deleteStock symbol = api_delete (''/stocks/'' @ symbol)"

section \<open>The financial table (components/FinancialTable.tsx)\<close>

text \<open>
  A line item read from a row is a number, \<open>null\<close>, or \<open>undefined\<close> when the row has
  no such field. The number type and the platform's \<open>Number.prototype.toLocaleString\<close>
  are parameters of \<open>formatNumber\<close>.
\<close>

datatype 'n jsval = Null | Undefined | Num 'n

record format_options =
  maximumFractionDigits :: nat

definition localeCode :: "string \<Rightarrow> string" where
  "localeCode locale = (if locale = ''vi'' then ''vi-VN'' else ''en-US'')"

definition formatNumber ::
  "('n \<Rightarrow> string \<Rightarrow> format_options \<Rightarrow> string) \<Rightarrow> 'n jsval \<Rightarrow> string \<Rightarrow> string" where
  "formatNumber toLocaleString v locale =
     (case v of
        Null \<Rightarrow> ''-''
      | Undefined \<Rightarrow> ''-''
      | Num n \<Rightarrow> toLocaleString n (localeCode locale) \<lparr> maximumFractionDigits = 10 \<rparr>)"

text \<open>
  The platform function on whole numbers: decimal digits in groups of three, separated by
  \<open>.\<close> for \<open>vi-VN\<close> and by \<open>,\<close> for \<open>en-US\<close> (the source's comment: Vietnamese
  1.234.567,89, English 1,234,567.89), with a leading minus sign for a negative number.
\<close>

definition digit_char :: "nat \<Rightarrow> char" where
  "digit_char d = char_of (48 + d)"

fun decimal :: "nat \<Rightarrow> string" where
  "decimal n = (if n < 10 then [digit_char n] else decimal (n div 10) @ [digit_char (n mod 10)])"

declare decimal.simps [simp del]

fun group_rev :: "char \<Rightarrow> string \<Rightarrow> string" where
  "group_rev sep (a # b # c # d # ds) = a # b # c # sep # group_rev sep (d # ds)"
| "group_rev sep ds = ds"

definition grouped :: "char \<Rightarrow> string \<Rightarrow> string" where
  "grouped sep ds = rev (group_rev sep (rev ds))"

definition toLocaleString_int :: "int \<Rightarrow> string \<Rightarrow> format_options \<Rightarrow> string" where
  "toLocaleString_int n code opts =
     (if n < 0 then ''-'' else []) @
     grouped (if code = ''vi-VN'' then CHR ''.'' else CHR '','') (decimal (nat \<bar>n\<bar>))"

section \<open>The application (App.tsx)\<close>

text \<open>
  The fields the three report rows (\<open>BalanceSheet\<close>, \<open>IncomeStatement\<close>,
  \<open>CashFlowStatement\<close>) share. Each report type extends the record with its own line
  items; the functions below read \<open>year\<close> only and accept every extension.
\<close>

record period_row =
  row_id :: int
  stock_id :: int
  row_period_type :: PeriodType
  year :: int
  quarter :: "int option"
  period :: string

text \<open>\<open>Set.prototype.add\<close>: a set keeps its members in the order they were first added.\<close>

definition set_add :: "'a list \<Rightarrow> 'a \<Rightarrow> 'a list" where
  "set_add ys x = (if x \<in> set ys then ys else ys @ [x])"

text \<open>
  A stable sort by a comparison: \<open>x\<close> goes in front of the first element it may precede.
\<close>

fun insert_by :: "('a \<Rightarrow> 'a \<Rightarrow> bool) \<Rightarrow> 'a \<Rightarrow> 'a list \<Rightarrow> 'a list" where
  "insert_by le x [] = [x]"
| "insert_by le x (y # ys) = (if le x y then x # y # ys else y # insert_by le x ys)"

definition sort_by :: "('a \<Rightarrow> 'a \<Rightarrow> bool) \<Rightarrow> 'a list \<Rightarrow> 'a list" where
  "sort_by le xs = foldr (insert_by le) xs []"

text \<open>
  \<open>Array.prototype.sort(compareFn)\<close>: \<open>a\<close> stays in front of \<open>b\<close> when
  \<open>compareFn(a, b) \<le> 0\<close>.
\<close>

definition js_sort :: "('a \<Rightarrow> 'a \<Rightarrow> int) \<Rightarrow> 'a list \<Rightarrow> 'a list" where
  "js_sort compareFn xs = sort_by (\<lambda>a b. compareFn a b \<le> 0) xs"

text \<open>The value handed to \<open>setAvailableYears\<close>.\<close>

definition updateAvailableYears ::
  "('a period_row_scheme) list \<Rightarrow> ('b period_row_scheme) list \<Rightarrow> ('c period_row_scheme) list
     \<Rightarrow> int list" where
  "updateAvailableYears bs is cf =
     js_sort (\<lambda>a b. b - a) (foldl set_add [] (map year bs @ map year is @ map year cf))"

text \<open>\<open>Array.prototype.includes\<close> and \<open>Array.prototype.filter\<close>.\<close>

fun array_includes :: "'a list \<Rightarrow> 'a \<Rightarrow> bool" where
  "array_includes [] x = False"
| "array_includes (y # ys) x = (y = x \<or> array_includes ys x)"

fun js_filter :: "('a \<Rightarrow> bool) \<Rightarrow> 'a list \<Rightarrow> 'a list" where
  "js_filter p [] = []"
| "js_filter p (x # xs) = (if p x then x # js_filter p xs else js_filter p xs)"

definition filteredBalanceSheets ::
  "int list \<Rightarrow> ('a period_row_scheme) list \<Rightarrow> ('a period_row_scheme) list" where
  "filteredBalanceSheets selectedYears balanceSheets =
     (if length selectedYears = 0 then balanceSheets
      else js_filter (\<lambda>bs. array_includes selectedYears (year bs)) balanceSheets)"

definition filteredIncomeStatements ::
  "int list \<Rightarrow> ('a period_row_scheme) list \<Rightarrow> ('a period_row_scheme) list" where
  "filteredIncomeStatements selectedYears incomeStatements =
     (if length selectedYears = 0 then incomeStatements
      else js_filter (\<lambda>is. array_includes selectedYears (year is)) incomeStatements)"

definition filteredCashFlowStatements ::
  "int list \<Rightarrow> ('a period_row_scheme) list \<Rightarrow> ('a period_row_scheme) list" where
  "filteredCashFlowStatements selectedYears cashFlowStatements =
     (if length selectedYears = 0 then cashFlowStatements
      else js_filter (\<lambda>cf. array_includes selectedYears (year cf)) cashFlowStatements)"

text \<open>An annual row of a given identifier and year, for examples.\<close>

definition annual_row :: "int \<Rightarrow> int \<Rightarrow> period_row" where
  "annual_row i y =
     \<lparr> row_id = i, stock_id = 1, row_period_type = Annual, year = y, quarter = None,
       period = [] \<rparr>"

section \<open>The search box (components/StockSearch.tsx)\<close>

text \<open>
  The component as a state machine. Its state holds the React state variables, the
  debounce hook's value and pending timer, and a log of what left the component: the
  requests issued through \<open>stockApi.searchStocks\<close> and the symbols passed to
  \<open>onSelect\<close>. An event is a user action, the debounce timer firing, or the answer to a
  request in flight. The platform's \<open>String.prototype.toUpperCase\<close> is a parameter.
\<close>

record StockSearchResult =
  result_symbol :: string
  organName :: string
  result_exchange :: "string option"

record search_state =
  query :: string
  debouncedQuery :: string
  timer :: "string option"
  results :: "StockSearchResult list"
  isLoading :: bool
  isOpen :: bool
  in_flight :: nat
  issued :: "request list"
  selections :: "string list"

datatype search_event =
    Change string
  | DebounceElapsed
  | SearchResolved "StockSearchResult list"
  | SearchRejected
  | Focus
  | ClickOutside
  | Select string

text \<open>
  After the first render: every state variable has its initial value, the debounce hook has
  set its first timer, and the search effect has run on the empty query, which issues
  nothing.
\<close>

definition mounted :: search_state where
  "mounted = \<lparr> query = [], debouncedQuery = [], timer = Some [], results = [],
               isLoading = False, isOpen = False, in_flight = 0, issued = [],
               selections = [] \<rparr>"

text \<open>
  \<open>setQuery\<close>: an unchanged value does not render again. A changed one does, and the
  debounce hook's effect clears its pending timer and sets a new one for the new value.
\<close>

definition setQuery :: "string \<Rightarrow> search_state \<Rightarrow> search_state" where
  "setQuery v s = (if v = query s then s else s\<lparr> query := v, timer := Some v \<rparr>)"

text \<open>The effect that runs when \<open>debouncedQuery\<close> has changed.\<close>

definition searchEffect :: "search_state \<Rightarrow> search_state" where
  "searchEffect s =
     (if length (debouncedQuery s) < 1 then s\<lparr> results := [] \<rparr>
      else s\<lparr> isLoading := True, in_flight := in_flight s + 1,
              issued := issued s @ [searchStocks (debouncedQuery s)] \<rparr>)"

fun step :: "(string \<Rightarrow> string) \<Rightarrow> search_event \<Rightarrow> search_state \<Rightarrow> search_state" where
  "step toUpperCase (Change typed) s = setQuery (toUpperCase typed) s"
| "step toUpperCase DebounceElapsed s =
     (case timer s of
        None \<Rightarrow> s
      | Some v \<Rightarrow>
          if v = debouncedQuery s then s\<lparr> timer := None \<rparr>
          else searchEffect (s\<lparr> timer := None, debouncedQuery := v \<rparr>))"
| "step toUpperCase (SearchResolved data) s =
     (if in_flight s = 0 then s
      else s\<lparr> results := data, isOpen := True, isLoading := False,
              in_flight := in_flight s - 1 \<rparr>)"
| "step toUpperCase SearchRejected s =
     (if in_flight s = 0 then s
      else s\<lparr> results := [], isLoading := False, in_flight := in_flight s - 1 \<rparr>)"
| "step toUpperCase Focus s = (if length (query s) > 0 then s\<lparr> isOpen := True \<rparr> else s)"
| "step toUpperCase ClickOutside s = s\<lparr> isOpen := False \<rparr>"
| "step toUpperCase (Select chosen) s =
     (setQuery [] (s\<lparr> selections := selections s @ [chosen] \<rparr>))\<lparr> isOpen := False \<rparr>"

definition run :: "(string \<Rightarrow> string) \<Rightarrow> search_event list \<Rightarrow> search_state" where
  "run toUpperCase es = foldl (\<lambda>s e. step toUpperCase e s) mounted es"

text \<open>Upper case on ASCII letters, an instance of the parameter.\<close>

definition upper_char :: "char \<Rightarrow> char" where
  "upper_char c =
     (let n = of_char c :: nat in if 97 \<le> n \<and> n \<le> 122 then char_of (n - 32) else c)"

definition upper_ascii :: "string \<Rightarrow> string" where
  "upper_ascii s = map upper_char s"

text \<open>
  Two invariants of the states the component reaches. The pending timer holds the current
  query, and with no timer pending the debounced value has caught up with the query.
\<close>

definition timer_inv :: "search_state \<Rightarrow> bool" where
  "timer_inv s =
     (case timer s of Some v \<Rightarrow> v = query s | None \<Rightarrow> debouncedQuery s = query s)"

text \<open>
  Every query value in the state is empty or the upper-cased text of an earlier
  \<open>Change\<close>, and every request issued carries such a text, not empty.
\<close>

definition from_typed :: "(string \<Rightarrow> string) \<Rightarrow> search_event list \<Rightarrow> string \<Rightarrow> bool" where
  "from_typed up es v = (v = [] \<or> (\<exists>typed. Change typed \<in> set es \<and> v = up typed))"

definition typed_inv :: "(string \<Rightarrow> string) \<Rightarrow> search_event list \<Rightarrow> search_state \<Rightarrow> bool" where
  "typed_inv up es s =
     (from_typed up es (query s) \<and> from_typed up es (debouncedQuery s) \<and>
      (\<forall>v. timer s = Some v \<longrightarrow> from_typed up es v) \<and>
      (\<forall>r \<in> set (issued s). \<exists>typed. Change typed \<in> set es \<and> up typed \<noteq> [] \<and>
          r = searchStocks (up typed)))"

section \<open>The backend: fetch orchestrator and reports assembler\<close>

text \<open>
  Modelled from the spec: the backend of the repository (the relational store, the fetch
  orchestrator \<open>ensureData\<close> and the reports assembler \<open>getReports\<close>) is not among the
  sources. The definitions of this section follow sections 3 and 4 of the specification.
  Time stamps are left out.
\<close>

text \<open>
  Modelled from the spec: the \<open>Stock\<close> entity and the key of a financial period record,
  (stock, period type, year, quarter or null). The backend's code is missing.
\<close>

record Stock =
  symbol :: string
  name :: "string option"
  exchange :: "string option"

type_synonym period_id = "int \<times> int option"

type_synonym period_key = "string \<times> PeriodType \<times> int \<times> int option"

text \<open>
  Modelled from the spec: the relational store, one table of stocks and one table per
  report category, the backend's tables being missing. A table is the list of its rows,
  a row a key with its line items and label (\<open>'v\<close>).
\<close>

record 'v store =
  stocks :: "Stock list"
  balance_sheets :: "(period_key \<times> 'v) list"
  income_statements :: "(period_key \<times> 'v) list"
  cash_flow_statements :: "(period_key \<times> 'v) list"

datatype category = BalanceSheetCategory | IncomeStatementCategory | CashFlowCategory

datatype FetchStatus = Fetched | Cached | Error | NotFound

datatype failure = ValidationError

text \<open>
  Modelled from the spec: the external data provider, whose client code is missing. It
  answers a company lookup with a display name and an exchange, and a request for one
  report category, symbol, period type, window and language with the period records it
  has, or with \<open>None\<close> on a timeout or an error.
\<close>

record 'v provider =
  company_info :: "string \<Rightarrow> string option \<times> string option"
  fetch_category ::
    "category \<Rightarrow> string \<Rightarrow> PeriodType \<Rightarrow> int \<Rightarrow> string \<Rightarrow> (period_id \<times> 'v) list option"

text \<open>
  Modelled from the spec: the upsert of the missing storage layer, "overwrite if the
  (stock, period_type, year, quarter) key already exists, insert otherwise".
\<close>

fun upsert :: "'k \<Rightarrow> 'v \<Rightarrow> ('k \<times> 'v) list \<Rightarrow> ('k \<times> 'v) list" where
  "upsert k v [] = [(k, v)]"
| "upsert k v ((k', v') # rows) =
     (if k' = k then (k, v) # rows else (k', v') # upsert k v rows)"

definition upsertAll :: "('k \<times> 'v) list \<Rightarrow> ('k \<times> 'v) list \<Rightarrow> ('k \<times> 'v) list" where
  "upsertAll new table = foldl (\<lambda>t (k, v). upsert k v t) table new"

definition keyed :: "string \<Rightarrow> PeriodType \<Rightarrow> (period_id \<times> 'v) list \<Rightarrow> (period_key \<times> 'v) list" where
  "keyed ticker periodType records = map (\<lambda>((y, q), v). ((ticker, periodType, y, q), v)) records"

text \<open>
  Modelled from the spec: "resolve or create the Stock entity for symbol (querying the
  external provider for display name/exchange if not already known)"; the orchestrator's
  code is missing.
\<close>

definition resolveStock :: "'v provider \<Rightarrow> string \<Rightarrow> 'v store \<Rightarrow> 'v store" where
  "resolveStock prov ticker db =
     (if ticker \<in> set (map symbol (stocks db)) then db
      else
        let (n, e) = company_info prov ticker
        in db\<lparr> stocks := stocks db @ [\<lparr> symbol = ticker, name = n, exchange = e \<rparr>] \<rparr>)"

text \<open>
  Modelled from the spec: "query local storage for existing periods of that type"; the
  query's code is missing. A period exists locally when each of the three tables holds a
  record of it for the stock and the period type.
\<close>

definition periodsOf :: "string \<Rightarrow> PeriodType \<Rightarrow> (period_key \<times> 'v) list \<Rightarrow> period_id list" where
  "periodsOf ticker periodType table =
     map (\<lambda>((s, t, y, q), v). (y, q))
       (filter (\<lambda>((s, t, y, q), v). s = ticker \<and> t = periodType) table)"

definition existingPeriods :: "'v store \<Rightarrow> string \<Rightarrow> PeriodType \<Rightarrow> period_id list" where
  "existingPeriods db ticker periodType =
     filter (\<lambda>p. p \<in> set (periodsOf ticker periodType (income_statements db)) \<and>
                 p \<in> set (periodsOf ticker periodType (cash_flow_statements db)))
       (periodsOf ticker periodType (balance_sheets db))"

text \<open>
  Modelled from the spec: one category's fetch and upsert batch, all or nothing; the
  orchestrator's code is missing. The result tells whether the provider answered.
\<close>

definition fetchCategory ::
  "'v provider \<Rightarrow> category \<Rightarrow> string \<Rightarrow> PeriodType \<Rightarrow> int \<Rightarrow> string \<Rightarrow> (period_key \<times> 'v) list
     \<Rightarrow> bool \<times> (period_key \<times> 'v) list" where
  "fetchCategory prov cat ticker periodType yearsBack lang table =
     (case fetch_category prov cat ticker periodType yearsBack lang of
        None \<Rightarrow> (False, table)
      | Some records \<Rightarrow> (True, upsertAll (keyed ticker periodType records) table))"

text \<open>
  Modelled from the spec: the operation \<open>ensureData(symbol, periodType, yearsBack, lang)\<close>
  of section 4.1, whose code is missing. The periods expected for a window depend on the
  calendar, which the specification leaves open: \<open>expectedPeriods\<close> is a parameter. An
  empty symbol or a window that is not positive is rejected before any provider call. The
  status is \<open>Error\<close> when a category's fetch failed, \<open>Fetched\<close> otherwise.
\<close>

definition ensureData ::
  "(PeriodType \<Rightarrow> int \<Rightarrow> period_id list) \<Rightarrow> 'v provider \<Rightarrow> string \<Rightarrow> PeriodType \<Rightarrow> int \<Rightarrow> string
     \<Rightarrow> 'v store \<Rightarrow> (failure + FetchStatus) \<times> 'v store" where
  "ensureData expectedPeriods prov symbol0 periodType yearsBack lang db =
     (let ticker = upper_ascii symbol0 in
      if ticker = [] \<or> yearsBack \<le> 0 then (Inl ValidationError, db)
      else
        let db1 = resolveStock prov ticker db;
            missing = filter (\<lambda>p. p \<notin> set (existingPeriods db1 ticker periodType))
                        (expectedPeriods periodType yearsBack)
        in
          if missing = [] then (Inr Cached, db1)
          else
            let (ok_bs, bs) = fetchCategory prov BalanceSheetCategory ticker periodType yearsBack
                                lang (balance_sheets db1);
                (ok_is, is) = fetchCategory prov IncomeStatementCategory ticker periodType yearsBack
                                lang (income_statements db1);
                (ok_cf, cf) = fetchCategory prov CashFlowCategory ticker periodType yearsBack
                                lang (cash_flow_statements db1)
            in (Inr (if ok_bs \<and> ok_is \<and> ok_cf then Fetched else Error),
                db1\<lparr> balance_sheets := bs, income_statements := is,
                     cash_flow_statements := cf \<rparr>))"



text \<open>
  Modelled from the spec: the order of a reports read, "by year descending, then quarter
  descending (quarter null/annual sorts as a single bucket)"; the query's code is missing.
  The null quarters of a year are one bucket, placed after the numbered quarters.
\<close>

fun quarter_ge :: "int option \<Rightarrow> int option \<Rightarrow> bool" where
  "quarter_ge (Some a) (Some b) = (b \<le> a)"
| "quarter_ge (Some a) None = True"
| "quarter_ge None (Some b) = False"
| "quarter_ge None None = True"

definition key_year :: "period_key \<times> 'v \<Rightarrow> int" where
  "key_year r = (case r of ((s, t, y, q), v) \<Rightarrow> y)"

definition key_quarter :: "period_key \<times> 'v \<Rightarrow> int option" where
  "key_quarter r = (case r of ((s, t, y, q), v) \<Rightarrow> q)"

definition period_ge :: "period_key \<times> 'v \<Rightarrow> period_key \<times> 'v \<Rightarrow> bool" where
  "period_ge a b =
     (key_year b < key_year a \<or>
      (key_year a = key_year b \<and> quarter_ge (key_quarter a) (key_quarter b)))"

text \<open>
  Modelled from the spec: "read matching period rows for the given periodType (and year
  filter if provided)", ordered as above; the assembler's code is missing.
\<close>

definition readRows ::
  "string \<Rightarrow> PeriodType \<Rightarrow> int option \<Rightarrow> (period_key \<times> 'v) list \<Rightarrow> (period_key \<times> 'v) list" where
  "readRows ticker periodType yearFilter table =
     sort_by period_ge
       (filter (\<lambda>((s, t, y, q), v). s = ticker \<and> t = periodType \<and>
                  (case yearFilter of None \<Rightarrow> True | Some y' \<Rightarrow> y = y')) table)"

record 'v reports =
  stock :: "Stock option"
  balanceSheets :: "(period_key \<times> 'v) list"
  incomeStatements :: "(period_key \<times> 'v) list"
  cashFlowStatements :: "(period_key \<times> 'v) list"
  fetchStatus :: "FetchStatus option"

definition assemble ::
  "string \<Rightarrow> PeriodType \<Rightarrow> int option \<Rightarrow> FetchStatus option \<Rightarrow> 'v store \<Rightarrow> 'v reports" where
  "assemble ticker periodType yearFilter st db =
     \<lparr> stock = find (\<lambda>k. symbol k = ticker) (stocks db),
       balanceSheets = readRows ticker periodType yearFilter (balance_sheets db),
       incomeStatements = readRows ticker periodType yearFilter (income_statements db),
       cashFlowStatements = readRows ticker periodType yearFilter (cash_flow_statements db),
       fetchStatus = st \<rparr>"

text \<open>
  Modelled from the spec: the operation \<open>getReports(symbol, periodType, year?, autoFetch,
  lang)\<close> of section 4.2, whose code is missing. The specification names no status for a
  read of a known stock without auto-fetch: the model gives none there.
\<close>

definition getReports ::
  "(PeriodType \<Rightarrow> int \<Rightarrow> period_id list) \<Rightarrow> int \<Rightarrow> 'v provider \<Rightarrow> string \<Rightarrow> PeriodType \<Rightarrow> int option
     \<Rightarrow> bool \<Rightarrow> string \<Rightarrow> 'v store \<Rightarrow> (failure + 'v reports) \<times> 'v store" where
  "getReports expectedPeriods yearsBack prov symbol0 periodType yearFilter autoFetch lang db =
     (let ticker = upper_ascii symbol0 in
      if autoFetch then
        (case ensureData expectedPeriods prov symbol0 periodType yearsBack lang db of
           (Inl e, db') \<Rightarrow> (Inl e, db')
         | (Inr st, db') \<Rightarrow> (Inr (assemble ticker periodType yearFilter (Some st) db'), db'))
      else if ticker = [] then (Inl ValidationError, db)
      else if ticker \<notin> set (map symbol (stocks db)) then
        (Inr \<lparr> stock = None, balanceSheets = [], incomeStatements = [],
               cashFlowStatements = [], fetchStatus = Some NotFound \<rparr>, db)
      else (Inr (assemble ticker periodType yearFilter None db), db))"

text \<open>
  An example: a provider that has the annual records of 2023 and 2022 (2023 twice, the
  later value standing) for the balance sheet and the cash flow, and fails on the income
  statement; two expected periods; an empty store; and a store with quarterly balance
  sheets that are not stored in order.
\<close>

definition example_provider :: "int provider" where
  "example_provider =
     \<lparr> company_info = (\<lambda>s. (Some ''Vinamilk'', Some ''HOSE'')),
       fetch_category = (\<lambda>cat s t n l.
          if cat = IncomeStatementCategory then None
          else Some [((2023, None), 10), ((2022, None), 20), ((2023, None), 11)]) \<rparr>"

definition example_expected :: "PeriodType \<Rightarrow> int \<Rightarrow> period_id list" where
  "example_expected t n = [(2023, None), (2022, None)]"


definition example_store :: "int store" where
  "example_store =
     \<lparr> stocks = [\<lparr> symbol = ''VNM'', name = None, exchange = None \<rparr>],
       balance_sheets =
         [((''VNM'', Quarter, 2022, Some 4), 1), ((''VNM'', Quarter, 2023, Some 1), 2),
          ((''FPT'', Quarter, 2023, Some 2), 3), ((''VNM'', Quarter, 2023, Some 3), 4)],
       income_statements = [], cash_flow_statements = [] \<rparr>"

section \<open>Properties of the API client\<close>

lemmas operation_defs =
  listStocks_def searchStocks_def getStock_def fetchStockData_def getBalanceSheets_def
  getIncomeStatements_def getCashFlowStatements_def getAllReports_def getFetchStatus_def
  deleteStock_def

lemmas instance_defs = api_get_def api_post_def api_delete_def api_request_def no_config_def

text \<open>
  C2. The two operations that can make the server fetch from the external provider,
  \<open>fetchStockData\<close> and \<open>getAllReports\<close>, are issued with a timeout of 60000 ms; the
  eight other operations are issued with the instance's default of 30000 ms.
\<close>

theorem provider_operations_60s_others_30s:
  "req_timeout (fetchStockData s body lang) = 60000 \<and>
   req_timeout (getAllReports s y periodType lang) = 60000 \<and>
   req_timeout listStocks = 30000 \<and>
   req_timeout (searchStocks q) = 30000 \<and>
   req_timeout (getStock s) = 30000 \<and>
   req_timeout (getBalanceSheets s y pt) = 30000 \<and>
   req_timeout (getIncomeStatements s y pt) = 30000 \<and>
   req_timeout (getCashFlowStatements s y pt) = 30000 \<and>
   req_timeout (getFetchStatus s) = 30000 \<and>
   req_timeout (deleteStock s) = 30000"
  by (simp add: operation_defs instance_defs DEFAULT_TIMEOUT_def FETCH_TIMEOUT_def)

text \<open>
  C4. Called without a request body, \<open>fetchStockData\<close> posts the body
  \<open>{period_type: 'annual', years: 6}\<close>, and 6 lies in the first-load window of 5 to 6 years.
\<close>

theorem fetchStockData_default_body:
  "req_data (fetchStockData s None lang) = Some \<lparr> period_type = Annual, years = 6 \<rparr> \<and>
   (\<exists>r. req_data (fetchStockData s None lang) = Some r \<and> period_type r = Annual \<and>
        PeriodType_str (period_type r) = ''annual'' \<and> 5 \<le> years r \<and> years r \<le> 6)"
  by (simp add: operation_defs instance_defs)

lemma set_param_keys: "fst ` set (set_param k v ps) = insert k (fst ` set ps)"
proof (induction ps)
  case Nil
  show ?case by simp
next
  case (Cons p ps)
  then show ?case by (cases p) (auto simp: insert_commute)
qed

lemma map_of_set_param: "map_of (set_param k v ps) = (map_of ps)(k \<mapsto> v)"
  by (induction ps) (auto simp: fun_eq_iff)

lemma with_year_keys: "fst ` set (with_year y ps) \<subseteq> insert ''year'' (fst ` set ps)"
  by (auto simp: with_year_def set_param_keys)

lemma with_period_type_keys:
  "fst ` set (with_period_type p ps) \<subseteq> insert ''period_type'' (fst ` set ps)"
  by (auto simp: with_period_type_def set_param_keys)

lemma single_category_keys:
  "fst ` set (with_period_type p (with_year y [])) \<subseteq> {''year'', ''period_type''}"
  using with_period_type_keys[of p "with_year y []"] with_year_keys[of y "[]"] by auto

lemma map_of_with_year_other:
  "k \<noteq> ''year'' \<Longrightarrow> map_of (with_year y ps) k = map_of ps k"
  by (simp add: with_year_def map_of_set_param)

text \<open>A year other than 0 is sent, so the year filter is not dropped altogether.\<close>

lemma nonzero_year_is_sent:
  "y \<noteq> 0 \<Longrightarrow> map_of (req_params (getAllReports s (Some y) periodType lang)) ''year'' = Some (PNum y)"
  "y \<noteq> 0 \<Longrightarrow> map_of (req_params (getBalanceSheets s (Some y) pt)) ''year'' = Some (PNum y)"
  by (simp_all add: operation_defs instance_defs with_year_def with_period_type_def
      map_of_set_param)

text \<open>
  C5. The query of \<open>getAllReports\<close> always has \<open>auto_fetch = true\<close>. The queries of
  \<open>getBalanceSheets\<close>, \<open>getIncomeStatements\<close> and \<open>getCashFlowStatements\<close> have no key
  but \<open>year\<close> and \<open>period_type\<close>, hence no \<open>auto_fetch\<close>.
\<close>

theorem auto_fetch_only_in_getAllReports:
  "map_of (req_params (getAllReports s y periodType lang)) ''auto_fetch'' = Some (PBool True) \<and>
   fst ` set (req_params (getBalanceSheets s y pt)) \<subseteq> {''year'', ''period_type''} \<and>
   fst ` set (req_params (getIncomeStatements s y pt)) \<subseteq> {''year'', ''period_type''} \<and>
   fst ` set (req_params (getCashFlowStatements s y pt)) \<subseteq> {''year'', ''period_type''} \<and>
   map_of (req_params (getBalanceSheets s y pt)) ''auto_fetch'' = None \<and>
   map_of (req_params (getIncomeStatements s y pt)) ''auto_fetch'' = None \<and>
   map_of (req_params (getCashFlowStatements s y pt)) ''auto_fetch'' = None"
proof -
  have k: "fst ` set (with_period_type pt (with_year y [])) \<subseteq> {''year'', ''period_type''}"
    by (rule single_category_keys)
  have "''auto_fetch'' \<notin> fst ` set (with_period_type pt (with_year y []))"
    using k by auto
  then have n: "map_of (with_period_type pt (with_year y [])) ''auto_fetch'' = None"
    by (simp add: map_of_eq_None_iff)
  show ?thesis
    using k n by (simp add: operation_defs instance_defs map_of_with_year_other)
qed

text \<open>
  C8. In the four read operations with an optional year, the year 0 gives the very
  request that no year gives, and that request has no \<open>year\<close> in its query.
\<close>

theorem year_zero_is_no_filter:
  "getBalanceSheets s (Some 0) pt = getBalanceSheets s None pt \<and>
   getIncomeStatements s (Some 0) pt = getIncomeStatements s None pt \<and>
   getCashFlowStatements s (Some 0) pt = getCashFlowStatements s None pt \<and>
   getAllReports s (Some 0) periodType lang = getAllReports s None periodType lang \<and>
   map_of (req_params (getBalanceSheets s None pt)) ''year'' = None \<and>
   map_of (req_params (getIncomeStatements s None pt)) ''year'' = None \<and>
   map_of (req_params (getCashFlowStatements s None pt)) ''year'' = None \<and>
   map_of (req_params (getAllReports s None periodType lang)) ''year'' = None"
  by (simp add: operation_defs instance_defs with_year_def with_period_type_def map_of_set_param)

section \<open>Properties of the financial table\<close>

lemma decimal_small: "n < 10 \<Longrightarrow> decimal n = [digit_char n]"
  by (subst decimal.simps) simp

lemma decimal_ne: "decimal n \<noteq> []"
  by (subst decimal.simps) simp

lemma group_rev_ne: "ds \<noteq> [] \<Longrightarrow> group_rev sep ds \<noteq> []"
  by (induction sep ds rule: group_rev.induct) auto

lemma grouped_ne: "ds \<noteq> [] \<Longrightarrow> grouped sep ds \<noteq> []"
  by (simp add: grouped_def group_rev_ne)

lemma digit_char_not_minus: "d < 10 \<Longrightarrow> digit_char d \<noteq> CHR ''-''"
proof
  assume d: "d < 10" and eq: "digit_char d = CHR ''-''"
  have "(of_char (digit_char d) :: nat) = (48 + d) mod 256"
    unfolding digit_char_def by (rule of_char_of)
  also have "\<dots> = 48 + d" using d by simp
  finally have "(of_char (CHR ''-'') :: nat) = 48 + d" using eq by simp
  then show False by simp
qed

lemma decimal_digits: "c \<in> set (decimal n) \<Longrightarrow> c \<noteq> CHR ''-''"
proof (induction n arbitrary: c rule: decimal.induct)
  case (1 n)
  show ?case
  proof (cases "n < 10")
    case True
    with "1.prems" show ?thesis by (simp add: decimal_small digit_char_not_minus)
  next
    case False
    with "1.prems" have "c \<in> set (decimal (n div 10)) \<or> c = digit_char (n mod 10)"
      by (subst (asm) decimal.simps) auto
    moreover have "digit_char (n mod 10) \<noteq> CHR ''-''"
      by (rule digit_char_not_minus) simp
    ultimately show ?thesis using "1.IH"[OF False, of c] by fastforce
  qed
qed

lemma group_rev_last: "ds \<noteq> [] \<Longrightarrow> last (group_rev sep ds) = last ds"
  by (induction sep ds rule: group_rev.induct) (simp_all add: group_rev_ne)

lemma grouped_hd: "ds \<noteq> [] \<Longrightarrow> hd (grouped sep ds) = hd ds"
  by (simp add: grouped_def hd_rev group_rev_last last_rev group_rev_ne)

lemma toLocaleString_int_not_dash: "toLocaleString_int n code opts \<noteq> ''-''"
proof (cases "n < 0")
  case True
  then show ?thesis by (simp add: toLocaleString_int_def grouped_ne decimal_ne)
next
  case False
  have "hd (decimal (nat \<bar>n\<bar>)) \<in> set (decimal (nat \<bar>n\<bar>))" by (simp add: decimal_ne)
  then have "hd (decimal (nat \<bar>n\<bar>)) \<noteq> CHR ''-''" by (rule decimal_digits)
  then have "hd (toLocaleString_int n code opts) \<noteq> CHR ''-''"
    using False by (simp add: toLocaleString_int_def grouped_hd decimal_ne)
  then show ?thesis by auto
qed

lemma digit_char_0: "digit_char 0 = CHR ''0''"
  by code_simp

lemma toLocaleString_int_0: "toLocaleString_int 0 code opts = ''0''"
  by (simp add: toLocaleString_int_def grouped_def digit_char_0 decimal_small)

text \<open>
  C3. \<open>formatNumber\<close> renders an absent value (\<open>null\<close>, or \<open>undefined\<close>) as the placeholder
  \<open>-\<close> and every number, 0 included, as what the platform's locale formatting makes of it,
  with the locale code \<open>vi-VN\<close> or \<open>en-US\<close> and at most 10 fraction digits. On whole
  numbers the formatted text of 0 is \<open>0\<close>, and no number is rendered as the placeholder.
\<close>

theorem formatNumber_absent_is_not_zero:
  "formatNumber tls Null locale = ''-'' \<and>
   formatNumber tls Undefined locale = ''-'' \<and>
   formatNumber tls (Num v) locale =
     tls v (if locale = ''vi'' then ''vi-VN'' else ''en-US'') \<lparr> maximumFractionDigits = 10 \<rparr> \<and>
   formatNumber toLocaleString_int (Num 0) locale = ''0'' \<and>
   formatNumber toLocaleString_int (Num n) locale \<noteq> formatNumber toLocaleString_int Null locale"
  using toLocaleString_int_not_dash[of n]
  by (simp add: formatNumber_def localeCode_def toLocaleString_int_0)

section \<open>Properties of the application\<close>

text \<open>The stable sort by a comparison that is total and transitive.\<close>

lemma set_insert_by: "set (insert_by le x xs) = insert x (set xs)"
  by (induction xs) auto

lemma distinct_insert_by: "distinct (insert_by le x xs) = (x \<notin> set xs \<and> distinct xs)"
  by (induction xs) (auto simp: set_insert_by)

lemma sorted_wrt_insert_by:
  assumes total: "\<And>a b. le a b \<or> le b a" and trans: "\<And>a b c. le a b \<Longrightarrow> le b c \<Longrightarrow> le a c"
  shows "sorted_wrt le xs \<Longrightarrow> sorted_wrt le (insert_by le x xs)"
proof (induction xs)
  case Nil
  show ?case by simp
next
  case (Cons y ys)
  show ?case
  proof (cases "le x y")
    case True
    then have "\<forall>z \<in> set ys. le x z" using Cons.prems trans by auto
    with True Cons.prems show ?thesis by simp
  next
    case False
    then have "le y x" using total by blast
    with False Cons show ?thesis by (auto simp: set_insert_by)
  qed
qed

lemma set_sort_by: "set (sort_by le xs) = set xs"
  by (induction xs) (auto simp: sort_by_def set_insert_by)

lemma distinct_sort_by: "distinct (sort_by le xs) = distinct xs"
  by (induction xs) (auto simp: sort_by_def distinct_insert_by set_insert_by set_sort_by[unfolded sort_by_def])

lemma sorted_wrt_sort_by:
  assumes "\<And>a b. le a b \<or> le b a" and "\<And>a b c. le a b \<Longrightarrow> le b c \<Longrightarrow> le a c"
  shows "sorted_wrt le (sort_by le xs)"
proof (induction xs)
  case Nil
  show ?case by (simp add: sort_by_def)
next
  case (Cons x xs)
  have "sorted_wrt le (insert_by le x (sort_by le xs))"
    using assms Cons by (rule sorted_wrt_insert_by)
  then show ?case by (simp add: sort_by_def)
qed

text \<open>The year list: the years of all rows, each once, largest first.\<close>

lemma set_add_set: "set (foldl set_add acc zs) = set acc \<union> set zs"
  by (induction zs arbitrary: acc) (auto simp: set_add_def)

lemma set_add_distinct: "distinct acc \<Longrightarrow> distinct (foldl set_add acc zs)"
  by (induction zs arbitrary: acc) (auto simp: set_add_def)

lemma sorted_wrt_strict:
  "sorted_wrt (\<lambda>a b. (b::int) \<le> a) xs \<Longrightarrow> distinct xs \<Longrightarrow> sorted_wrt (\<lambda>a b. b < a) xs"
  by (induction xs) (auto simp: less_le)

lemma updateAvailableYears_desc:
  "sorted_wrt (\<lambda>a b. b < a) (updateAvailableYears bs is cf)"
proof -
  let ?ys = "foldl set_add [] (map year bs @ map year is @ map year cf)"
  have "sorted_wrt (\<lambda>a b. b - a \<le> (0::int)) (sort_by (\<lambda>a b. b - a \<le> 0) ?ys)"
    by (rule sorted_wrt_sort_by) auto
  then have "sorted_wrt (\<lambda>a b. b \<le> a) (updateAvailableYears bs is cf)"
    by (simp add: updateAvailableYears_def js_sort_def)
  moreover have "distinct (updateAvailableYears bs is cf)"
    by (simp add: updateAvailableYears_def js_sort_def distinct_sort_by set_add_distinct)
  ultimately show ?thesis by (rule sorted_wrt_strict)
qed

lemma updateAvailableYears_set:
  "set (updateAvailableYears bs is cf) = year ` set bs \<union> year ` set is \<union> year ` set cf"
  by (simp add: updateAvailableYears_def js_sort_def set_sort_by set_add_set Un_assoc)

text \<open>The array methods agree with membership and \<open>filter\<close> on lists.\<close>

lemma array_includes_iff: "array_includes xs x = (x \<in> set xs)"
  by (induction xs) auto

lemma js_filter_eq: "js_filter p xs = filter p xs"
  by (induction xs) auto

text \<open>
  C9. For each of the three report arrays: with no year selected the filtered array is the
  array itself; with years selected it is the rows whose year is among them, each as often
  as it occurs and in the original order. Either way it is a subsequence of the array.
\<close>

theorem year_filter_identity_or_subsequence:
  "(selectedYears = [] \<longrightarrow>
      filteredBalanceSheets selectedYears bs = bs \<and>
      filteredIncomeStatements selectedYears is = is \<and>
      filteredCashFlowStatements selectedYears cf = cf) \<and>
   (selectedYears \<noteq> [] \<longrightarrow>
      filteredBalanceSheets selectedYears bs = filter (\<lambda>r. year r \<in> set selectedYears) bs \<and>
      filteredIncomeStatements selectedYears is = filter (\<lambda>r. year r \<in> set selectedYears) is \<and>
      filteredCashFlowStatements selectedYears cf = filter (\<lambda>r. year r \<in> set selectedYears) cf) \<and>
   subseq (filteredBalanceSheets selectedYears bs) bs \<and>
   subseq (filteredIncomeStatements selectedYears is) is \<and>
   subseq (filteredCashFlowStatements selectedYears cf) cf"
  by (simp add: filteredBalanceSheets_def filteredIncomeStatements_def
      filteredCashFlowStatements_def js_filter_eq array_includes_iff)

theorem year_filter_identity_or_subsequence_witness:
  "filteredBalanceSheets [2023, 2021] [annual_row 1 2023, annual_row 2 2022, annual_row 3 2021]
     = [annual_row 1 2023, annual_row 3 2021] \<and>
   filteredIncomeStatements [2022] [annual_row 1 2023, annual_row 2 2022, annual_row 3 2021]
     = [annual_row 2 2022] \<and>
   filteredCashFlowStatements [2020] [annual_row 1 2023, annual_row 2 2022, annual_row 3 2021]
     = [] \<and>
   filteredBalanceSheets [] [annual_row 1 2023, annual_row 2 2022, annual_row 3 2021]
     = [annual_row 1 2023, annual_row 2 2022, annual_row 3 2021]"
  using
    year_filter_identity_or_subsequence[of "[2023, 2021]"
      "[annual_row 1 2023, annual_row 2 2022, annual_row 3 2021]"
      "[annual_row 1 2023, annual_row 2 2022, annual_row 3 2021]"
      "[annual_row 1 2023, annual_row 2 2022, annual_row 3 2021]"]
    year_filter_identity_or_subsequence[of "[2022]"
      "[annual_row 1 2023, annual_row 2 2022, annual_row 3 2021]"
      "[annual_row 1 2023, annual_row 2 2022, annual_row 3 2021]"
      "[annual_row 1 2023, annual_row 2 2022, annual_row 3 2021]"]
    year_filter_identity_or_subsequence[of "[2020]"
      "[annual_row 1 2023, annual_row 2 2022, annual_row 3 2021]"
      "[annual_row 1 2023, annual_row 2 2022, annual_row 3 2021]"
      "[annual_row 1 2023, annual_row 2 2022, annual_row 3 2021]"]
    year_filter_identity_or_subsequence[of "[]"
      "[annual_row 1 2023, annual_row 2 2022, annual_row 3 2021]"
      "[annual_row 1 2023, annual_row 2 2022, annual_row 3 2021]"
      "[annual_row 1 2023, annual_row 2 2022, annual_row 3 2021]"]
  by (simp add: annual_row_def)


section \<open>Properties of the search box\<close>

lemma run_Nil: "run up [] = mounted"
  by (simp add: run_def)

lemma run_snoc: "run up (es @ [e]) = step up e (run up es)"
  by (simp add: run_def)

lemma run_snoc2: "run up (es @ [e, e']) = step up e' (step up e (run up es))"
  by (simp add: run_def)

lemma timer_inv_step: "timer_inv s \<Longrightarrow> timer_inv (step up e s)"
  by (cases e) (auto simp: timer_inv_def setQuery_def searchEffect_def split: option.splits)

lemma timer_inv_run: "timer_inv (run up es)"
proof (induction es rule: rev_induct)
  case Nil
  show ?case by (simp add: run_Nil mounted_def timer_inv_def)
next
  case (snoc e es)
  then show ?case by (simp add: run_snoc timer_inv_step)
qed

lemma from_typed_empty: "from_typed up es []"
  by (simp add: from_typed_def)

lemma from_typed_mono: "from_typed up es v \<Longrightarrow> from_typed up (es @ [e]) v"
  by (auto simp: from_typed_def)

lemma typed_inv_mono: "typed_inv up es s \<Longrightarrow> typed_inv up (es @ [e]) s"
  unfolding typed_inv_def by (auto intro: from_typed_mono) 

lemma typed_inv_searchEffect: "typed_inv up es s \<Longrightarrow> typed_inv up es (searchEffect s)"
  unfolding typed_inv_def searchEffect_def by (auto simp: from_typed_def)

lemma typed_inv_step:
  assumes "typed_inv up es s"
  shows "typed_inv up (es @ [e]) (step up e s)"
proof -
  have m: "typed_inv up (es @ [e]) s"
    using assms by (rule typed_inv_mono)
  show ?thesis
  proof (cases e)
    case (Change typed)
    have "from_typed up (es @ [e]) (up typed)"
      using Change by (auto simp: from_typed_def)
    then show ?thesis using m Change
      by (auto simp: typed_inv_def setQuery_def)
  next
    case DebounceElapsed
    show ?thesis
    proof (cases "timer s")
      case None
      with m DebounceElapsed show ?thesis by simp
    next
      case (Some v)
      have a: "typed_inv up (es @ [e]) (s\<lparr>timer := None\<rparr>)"
        using m by (simp add: typed_inv_def)
      have "typed_inv up (es @ [e]) (s\<lparr>timer := None, debouncedQuery := v\<rparr>)"
        using m Some by (simp add: typed_inv_def)
      then have b: "typed_inv up (es @ [e]) (searchEffect (s\<lparr>timer := None, debouncedQuery := v\<rparr>))"
        by (rule typed_inv_searchEffect)
      show ?thesis using a b Some DebounceElapsed by simp
    qed
  next
    case (SearchResolved data)
    then show ?thesis using m by (simp add: typed_inv_def)
  next
    case SearchRejected
    then show ?thesis using m by (simp add: typed_inv_def)
  next
    case Focus
    then show ?thesis using m by (simp add: typed_inv_def from_typed_empty)
  next
    case ClickOutside
    then show ?thesis using m by (simp add: typed_inv_def)
  next
    case (Select chosen)
    then show ?thesis using m
      by (auto simp: typed_inv_def setQuery_def from_typed_def)
  qed
qed

lemma typed_inv_run: "typed_inv up es (run up es)"
proof (induction es rule: rev_induct)
  case Nil
  show ?case by (simp add: run_Nil mounted_def typed_inv_def from_typed_def)
next
  case (snoc e es)
  then show ?case by (simp add: run_snoc typed_inv_step)
qed

lemma issued_run:
  "r \<in> set (issued (run up es)) \<Longrightarrow>
     \<exists>typed. Change typed \<in> set es \<and> up typed \<noteq> [] \<and> r = searchStocks (up typed)"
  using typed_inv_run[of up es] by (auto simp: typed_inv_def)

lemma change_then_elapse:
  assumes "timer_inv s"
  shows "debouncedQuery (step up DebounceElapsed (step up (Change typed) s)) = up typed"
    and "up typed \<noteq> [] \<Longrightarrow> up typed \<noteq> debouncedQuery s \<Longrightarrow>
         issued (step up DebounceElapsed (step up (Change typed) s)) =
           issued s @ [searchStocks (up typed)]"
  using assms
  by (auto simp: timer_inv_def setQuery_def searchEffect_def split: option.splits)

text \<open>
  C6. The query stored on a change of the input is the typed text in upper case. Once the
  debounce timer has fired after the change, the debounced query is that text; if it is
  not empty and differs from the debounced query before, exactly one search request is
  issued, for that text. And every search request the component ever issues carries the
  upper-cased text of an earlier change as its \<open>q\<close>.
\<close>

theorem typed_query_is_upper_cased:
  "query (step toUpperCase (Change typed) s) = toUpperCase typed \<and>
   debouncedQuery (run toUpperCase (es @ [Change typed, DebounceElapsed])) = toUpperCase typed \<and>
   (toUpperCase typed \<noteq> [] \<and> toUpperCase typed \<noteq> debouncedQuery (run toUpperCase es) \<longrightarrow>
      issued (run toUpperCase (es @ [Change typed, DebounceElapsed])) =
        issued (run toUpperCase es) @ [searchStocks (toUpperCase typed)]) \<and>
   (\<forall>r \<in> set (issued (run toUpperCase es)).
      \<exists>t. Change t \<in> set es \<and> r = searchStocks (toUpperCase t) \<and>
          req_params r = [(''q'', PStr (toUpperCase t))])"
proof -
  have "query (step toUpperCase (Change typed) s) = toUpperCase typed"
    by (simp add: setQuery_def)
  moreover note change_then_elapse[OF timer_inv_run, of toUpperCase typed toUpperCase es]
  moreover have "\<forall>r \<in> set (issued (run toUpperCase es)).
      \<exists>t. Change t \<in> set es \<and> r = searchStocks (toUpperCase t) \<and>
          req_params r = [(''q'', PStr (toUpperCase t))]"
    using issued_run[of _ toUpperCase es]
    by (fastforce simp: searchStocks_def api_get_def api_request_def)
  ultimately show ?thesis by (simp add: run_snoc2)
qed

lemma upper_vn: "upper_ascii ''vn'' = ''VN''"
  by code_simp

theorem typed_query_is_upper_cased_witness:
  "query (step upper_ascii (Change ''vn'') mounted) = ''VN'' \<and>
   issued (run upper_ascii [Change ''vn'', DebounceElapsed]) = [searchStocks ''VN'']"
  using typed_query_is_upper_cased[of upper_ascii "''vn''" mounted "[]"]
  by (simp add: upper_vn run_Nil mounted_def)

text \<open>
  C10. Every search request the component issues has a query of at least one character;
  and when the debounced query is empty the search effect clears the results and issues
  nothing.
\<close>

theorem search_never_issued_for_empty_query:
  "(\<forall>r \<in> set (issued (run toUpperCase es)).
      \<exists>q. r = searchStocks q \<and> req_params r = [(''q'', PStr q)] \<and> 1 \<le> length q) \<and>
   (length (debouncedQuery s) < 1 \<longrightarrow>
      searchEffect s = s\<lparr> results := [] \<rparr> \<and> issued (searchEffect s) = issued s)"
proof -
  have "\<forall>r \<in> set (issued (run toUpperCase es)).
      \<exists>q. r = searchStocks q \<and> req_params r = [(''q'', PStr q)] \<and> 1 \<le> length q"
    using issued_run[of _ toUpperCase es] 
    by (fastforce simp: searchStocks_def api_get_def api_request_def Suc_le_eq)
  then show ?thesis by (simp add: searchEffect_def)
qed

theorem search_never_issued_for_empty_query_witness:
  "issued (run upper_ascii [Change ''vn'', DebounceElapsed, Select ''VNM'', DebounceElapsed])
     = [searchStocks ''VN''] \<and>
   debouncedQuery (run upper_ascii [Change ''vn'', DebounceElapsed, Select ''VNM'', DebounceElapsed]) = [] \<and>
   req_params (searchStocks ''VN'') = [(''q'', PStr ''VN'')] \<and> 1 \<le> length ''VN'' \<and>
   searchEffect mounted = mounted"
  using search_never_issued_for_empty_query[of upper_ascii
      "[Change ''vn'', DebounceElapsed, Select ''VNM'', DebounceElapsed]" mounted]
  by (simp add: upper_vn run_def mounted_def setQuery_def searchEffect_def searchStocks_def
      api_get_def api_request_def)

section \<open>Properties of the backend model\<close>























lemma upper_vnm: "upper_ascii ''vnm'' = ''VNM''"
  by code_simp



lemma quarter_ge_total: "quarter_ge p q \<or> quarter_ge q p"
  by (cases p; cases q) auto

lemma quarter_ge_trans: "quarter_ge p q \<Longrightarrow> quarter_ge q r \<Longrightarrow> quarter_ge p r"
  by (cases p; cases q; cases r) auto

lemma period_ge_total: "period_ge a b \<or> period_ge b a"
  using quarter_ge_total[of "key_quarter a" "key_quarter b"]
  by (auto simp: period_ge_def)

lemma period_ge_trans: "period_ge a b \<Longrightarrow> period_ge b c \<Longrightarrow> period_ge a c"
  using quarter_ge_trans[of "key_quarter a" "key_quarter b" "key_quarter c"]
  by (auto simp: period_ge_def)

lemma readRows_ordered: "sorted_wrt period_ge (readRows k t yf table)"
  unfolding readRows_def
proof (rule sorted_wrt_sort_by)
  show "period_ge a b \<or> period_ge b a" for a b :: "period_key \<times> 'a"
    by (rule period_ge_total)
  show "period_ge a b \<Longrightarrow> period_ge b c \<Longrightarrow> period_ge a c" for a b c :: "period_key \<times> 'a"
    by (rule period_ge_trans)
qed

lemma period_ge_year: "period_ge a b \<Longrightarrow> key_year b \<le> key_year a"
  by (auto simp: period_ge_def)

lemma getReports_ordered:
  fixes prov :: "'v provider"
  assumes "getReports ex n prov s0 t yf af l db = (Inr rep, db')"
  shows "sorted_wrt period_ge (balanceSheets rep) \<and>
         sorted_wrt period_ge (incomeStatements rep) \<and>
         sorted_wrt period_ge (cashFlowStatements rep)"
  using assms
  by (auto simp: getReports_def Let_def assemble_def readRows_ordered
      split: if_splits prod.splits sum.splits)

text \<open>
  C7. The three arrays of a reports read are ordered by year descending, then quarter
  descending with the null quarters of a year as one bucket; in particular their years
  never increase. The year list that \<open>updateAvailableYears\<close> derives from any three
  arrays of rows holds the years of the rows in strictly descending order.
\<close>

theorem rows_and_year_list_descending:
  fixes prov :: "'v provider"
  shows
  "(getReports ex n prov s0 t yf af l db = (Inr rep, db') \<longrightarrow>
      sorted_wrt period_ge (balanceSheets rep) \<and>
      sorted_wrt period_ge (incomeStatements rep) \<and>
      sorted_wrt period_ge (cashFlowStatements rep) \<and>
      sorted_wrt (\<lambda>a b. key_year b \<le> key_year a) (balanceSheets rep) \<and>
      sorted_wrt (\<lambda>a b. key_year b \<le> key_year a) (incomeStatements rep) \<and>
      sorted_wrt (\<lambda>a b. key_year b \<le> key_year a) (cashFlowStatements rep)) \<and>
   sorted_wrt (\<lambda>a b. b < a) (updateAvailableYears bs is cf) \<and>
   set (updateAvailableYears bs is cf) = year ` set bs \<union> year ` set is \<union> year ` set cf"
proof -
  have "sorted_wrt (\<lambda>a b. key_year b \<le> key_year a) rows" if "sorted_wrt period_ge rows"
    for rows :: "(period_key \<times> 'v) list"
    using that by (rule sorted_wrt_mono_rel[rotated]) (simp add: period_ge_year)
  then show ?thesis
    using getReports_ordered[of ex n prov s0 t yf af l db rep db']
    by (simp add: updateAvailableYears_desc updateAvailableYears_set)
qed

lemma example_read:
  "getReports example_expected 5 example_provider ''vnm'' Quarter None False ''vi'' example_store =
     (Inr \<lparr> stock = Some \<lparr> symbol = ''VNM'', name = None, exchange = None \<rparr>,
            balanceSheets =
              [((''VNM'', Quarter, 2023, Some 3), 4), ((''VNM'', Quarter, 2023, Some 1), 2),
               ((''VNM'', Quarter, 2022, Some 4), 1)],
            incomeStatements = [], cashFlowStatements = [], fetchStatus = None \<rparr>,
      example_store)"
  by (simp add: getReports_def upper_vnm example_store_def assemble_def readRows_def
      sort_by_def period_ge_def key_year_def key_quarter_def Let_def)

theorem rows_and_year_list_descending_witness:
  "getReports example_expected 5 example_provider ''vnm'' Quarter None False ''vi'' example_store =
     (Inr \<lparr> stock = Some \<lparr> symbol = ''VNM'', name = None, exchange = None \<rparr>,
            balanceSheets =
              [((''VNM'', Quarter, 2023, Some 3), 4), ((''VNM'', Quarter, 2023, Some 1), 2),
               ((''VNM'', Quarter, 2022, Some 4), 1)],
            incomeStatements = [], cashFlowStatements = [], fetchStatus = None \<rparr>,
      example_store) \<and>
   sorted_wrt period_ge
     [((''VNM'', Quarter, 2023, Some 3), 4::int), ((''VNM'', Quarter, 2023, Some 1), 2),
      ((''VNM'', Quarter, 2022, Some 4), 1)] \<and>
   updateAvailableYears [annual_row 1 2021, annual_row 2 2023] [annual_row 3 2022]
     [annual_row 4 2023] = [2023, 2022, 2021]"
proof -
  have u: "updateAvailableYears [annual_row 1 2021, annual_row 2 2023] [annual_row 3 2022]
     [annual_row 4 2023] = [2023, 2022, 2021]"
    by (simp add: updateAvailableYears_def js_sort_def sort_by_def set_add_def annual_row_def)
  note t = rows_and_year_list_descending[of example_expected 5 example_provider "''vnm''"
      Quarter None False "''vi''" example_store _ example_store]
  note s = t[THEN conjunct1, THEN mp, OF example_read, THEN conjunct1]
  show ?thesis
    using s by (simp add: example_read u)
qed

end
